theory Spec2Isabelle
  imports Main "HOL-Library.AList" "HOL-Library.Word"
begin

section \<open>The queue engine of orcaq (queue.go)\<close>

text \<open>
  The engine keeps job records in one bucket of a transactional key/value store, signals
  the IDs of runnable jobs on a buffered channel, and runs one dispatch loop per worker.
  The model is sequential: every function takes the queue and returns the queue it leaves
  behind. What the environment decides (the token of the UUID generator, whether the
  storage layer fails a transaction) is an argument of the function that asks for it.
\<close>

subsection \<open>Job records\<close>

type_synonym bytes = string

text \<open>
  Modelled from the spec: the Job struct, its status type and its encoding are declared
  outside queue.go. The spec's data model gives the fields (ID, payload, status, message,
  retry count, the last "a non-negative integer") and the four status values; queue.go
  names them \<open>ID\<close>, \<open>Data\<close>, \<open>Status\<close>, \<open>Message\<close>, \<open>RetryCount\<close> and
  \<open>Uack\<close>, \<open>Nack\<close>, \<open>Ack\<close>, \<open>Failed\<close>. The retry count is a Go integer,
  counted up with \<open>++\<close> in \<open>updateJobStatus\<close>: a 64-bit word here, read as a signed
  number by \<open>sint\<close>, so that the increment wraps as Go's does on a 64-bit target.
\<close>

datatype JobStatus = Uack | Nack | Ack | Failed

record Job =
  ID :: bytes
  Data :: bytes
  Status :: JobStatus
  Message :: string
  RetryCount :: "64 word"

text \<open>
  Modelled from the spec: \<open>Job.Bytes\<close> and \<open>DecodeJob\<close> are not in queue.go. They are a
  parameter of the model, a pair of functions between records and stored values of any
  type \<open>'v\<close>; the spec asks that decoding inverts encoding, which is \<open>roundtrip\<close>.
\<close>

record 'v codec =
  Bytes :: "Job \<Rightarrow> 'v"
  DecodeJob :: "'v \<Rightarrow> Job"

definition roundtrip :: "'v codec \<Rightarrow> bool" where
  "roundtrip c \<longleftrightarrow> (\<forall>j. DecodeJob c (Bytes c j) = j)"

subsection \<open>Errors\<close>

text \<open>
  Modelled from the spec: the error kinds of the engine. \<open>ErrNotFound\<close> is what the store's
  \<open>Get\<close> answers for an absent key, \<open>StoreError\<close> any other failure of the storage layer,
  \<open>RecoverableWorkerError\<close> the error type the dispatch loop tests for, \<open>OtherError\<close> any
  other error value a worker returns. \<open>Error\<close> is Go's \<open>err.Error()\<close>; the text of
  \<open>ErrNotFound\<close> stands for whatever the store prints.
\<close>

datatype error =
    ErrNotFound
  | StoreError string
  | RecoverableWorkerError string
  | OtherError string

fun Error :: "error \<Rightarrow> string" where
  "Error ErrNotFound = ''key not found''"
| "Error (StoreError s) = s"
| "Error (RecoverableWorkerError s) = s"
| "Error (OtherError s) = s"

subsection \<open>The store\<close>

text \<open>
  The content of the bucket \<open>Jobs\<close>: the entries in the order the store lists them.
  A transaction works on a copy; \<open>db_Update\<close> installs the copy when the body returns no
  error and the storage layer does not fail the write (\<open>fault = None\<close>), and otherwise
  leaves the store as it was. \<open>db_View\<close> is the read-only transaction. In the model
  \<open>Put\<close>, \<open>Delete\<close> and \<open>GetAll\<close> do not fail by themselves: a failure of one of
  them, or of the commit, is the fault of the whole transaction, which the source
  answers in the same way (the error is returned and nothing is written).
\<close>

type_synonym 'v Tx = "(bytes \<times> 'v) list"
type_synonym 'v DB = "(bytes \<times> 'v) list"

definition tx_Get :: "'v Tx \<Rightarrow> bytes \<Rightarrow> error + 'v" where
  "tx_Get tx k = (case map_of tx k of None \<Rightarrow> Inl ErrNotFound | Some v \<Rightarrow> Inr v)"

definition tx_Put :: "'v Tx \<Rightarrow> bytes \<Rightarrow> 'v \<Rightarrow> 'v Tx" where
  "tx_Put tx k v = AList.update k v tx"

definition tx_Delete :: "'v Tx \<Rightarrow> bytes \<Rightarrow> 'v Tx" where
  "tx_Delete tx k = AList.delete k tx"

definition tx_GetAll :: "'v Tx \<Rightarrow> 'v list" where
  "tx_GetAll tx = map snd tx"

definition db_Update ::
  "error option \<Rightarrow> ('v Tx \<Rightarrow> error + 'v Tx) \<Rightarrow> 'v DB \<Rightarrow> error option \<times> 'v DB" where
  "db_Update fault body d =
     (case body d of
        Inl e \<Rightarrow> (Some e, d)
      | Inr tx \<Rightarrow> (case fault of Some e \<Rightarrow> (Some e, d) | None \<Rightarrow> (None, tx)))"

definition db_View :: "error option \<Rightarrow> ('v Tx \<Rightarrow> error + 'a) \<Rightarrow> 'v DB \<Rightarrow> error + 'a" where
  "db_View fault body d = (case fault of Some e \<Rightarrow> Inl e | None \<Rightarrow> body d)"

subsection \<open>The queue\<close>

text \<open>
  \<open>notifier\<close> is the buffered channel, oldest ID first. A send on a channel that holds
  \<open>notifierCap\<close> IDs blocks; in this sequential model nobody else will receive, so the
  blocked call never returns, which is the result \<open>None\<close>. The registry of workers, the
  cancel functions and the wait group belong to the goroutines and are not modelled.
\<close>

record 'v Queue =
  QueueID :: string
  db :: "'v DB"
  notifier :: "bytes list"
  PollRate :: nat

definition notifierCap :: nat where
  "notifierCap = 1000"

definition chan_send :: "bytes list \<Rightarrow> bytes \<Rightarrow> bytes list option" where
  "chan_send ch x = (if length ch < notifierCap then Some (ch @ [x]) else None)"

text \<open>
  \<open>PushJob c u fault j q\<close>: \<open>u\<close> is the string of the UUID drawn inside the transaction.
  The result holds what the call returns, the caller's job as the call leaves it (the Go
  function gets a pointer) and the queue.
\<close>

definition PushJob ::
  "'v codec \<Rightarrow> bytes \<Rightarrow> error option \<Rightarrow> Job \<Rightarrow> 'v Queue
     \<Rightarrow> ((error + bytes) \<times> Job \<times> 'v Queue) option" where
  "PushJob c u fault j q =
     (let j' = j\<lparr>ID := u\<rparr>;
          (err, d) = db_Update fault (\<lambda>tx. Inr (tx_Put tx (ID j') (Bytes c j'))) (db q);
          q' = q\<lparr>db := d\<rparr>
      in case err of
           Some e \<Rightarrow> Some (Inl e, j', q')
         | None \<Rightarrow>
            (case chan_send (notifier q') (ID j') of
               None \<Rightarrow> None
             | Some ch \<Rightarrow> Some (Inr (ID j'), j', q'\<lparr>notifier := ch\<rparr>)))"

definition PushBytes ::
  "'v codec \<Rightarrow> bytes \<Rightarrow> error option \<Rightarrow> bytes \<Rightarrow> 'v Queue
     \<Rightarrow> ((error + bytes) \<times> Job \<times> 'v Queue) option" where
  "PushBytes c u fault d q =
     PushJob c u fault \<lparr>ID = [], Data = d, Status = Uack, Message = [], RetryCount = 0\<rparr> q"

definition GetJobByID :: "'v codec \<Rightarrow> error option \<Rightarrow> bytes \<Rightarrow> 'v Queue \<Rightarrow> error + Job" where
  "GetJobByID c fault jid q =
     db_View fault
       (\<lambda>tx. case tx_Get tx jid of Inl e \<Rightarrow> Inl e | Inr v \<Rightarrow> Inr (DecodeJob c v))
       (db q)"

definition updateJobStatus_body ::
  "'v codec \<Rightarrow> bytes \<Rightarrow> JobStatus \<Rightarrow> string \<Rightarrow> 'v Tx \<Rightarrow> error + 'v Tx" where
  "updateJobStatus_body c jid status message tx =
     (case tx_Get tx jid of
        Inl e \<Rightarrow> Inl e
      | Inr v \<Rightarrow>
         (let job = DecodeJob c v;
              job = job\<lparr>Status := status\<rparr>;
              job = job\<lparr>Message := message\<rparr>;
              job = (if status = Nack then job\<lparr>RetryCount := RetryCount job + 1\<rparr> else job)
          in Inr (tx_Put tx (ID job) (Bytes c job))))"

definition updateJobStatus ::
  "'v codec \<Rightarrow> error option \<Rightarrow> bytes \<Rightarrow> JobStatus \<Rightarrow> string \<Rightarrow> 'v Queue
     \<Rightarrow> (error option \<times> 'v Queue) option" where
  "updateJobStatus c fault jid status message q =
     (let (err, d) = db_Update fault (updateJobStatus_body c jid status message) (db q);
          q' = q\<lparr>db := d\<rparr>
      in if status = Nack \<and> err = None
         then (case chan_send (notifier q') jid of
                 None \<Rightarrow> None
               | Some ch \<Rightarrow> Some (err, q'\<lparr>notifier := ch\<rparr>))
         else Some (err, q'))"

text \<open>
  (The parameter \<open>id\<close> of \<open>GetJobByID\<close> and \<open>updateJobStatus\<close> is \<open>jid\<close> here.)
  The loop of \<open>processJobs\<close> over the entries that \<open>GetAll\<close> returned; the deletions go
  to the transaction. The cases are in the order of the source's switch.
\<close>

fun processJobs_loop :: "'v codec \<Rightarrow> 'v list \<Rightarrow> 'v Tx \<Rightarrow> 'v Tx" where
  "processJobs_loop c [] tx = tx"
| "processJobs_loop c (entry # entries) tx =
     (let job = DecodeJob c entry
      in case Status job of
           Uack \<Rightarrow> processJobs_loop c entries tx
         | Nack \<Rightarrow> processJobs_loop c entries tx
         | Failed \<Rightarrow> processJobs_loop c entries (tx_Delete tx (ID job))
         | Ack \<Rightarrow> processJobs_loop c entries (tx_Delete tx (ID job)))"

definition processJobs :: "'v codec \<Rightarrow> error option \<Rightarrow> 'v Queue \<Rightarrow> error option \<times> 'v Queue" where
  "processJobs c fault q =
     (let (err, d) = db_Update fault (\<lambda>tx. Inr (processJobs_loop c (tx_GetAll tx) tx)) (db q)
      in (err, q\<lparr>db := d\<rparr>))"

text \<open>
  \<open>Init c filepath opened fault\<close>: \<open>opened\<close> is what opening the store at \<open>filepath\<close>
  gives, an error or the content found there; \<open>fault\<close> is for the transaction of the
  sweep, whose error \<open>Init\<close> logs and drops. The poll rate is in milliseconds.
\<close>

definition Init :: "'v codec \<Rightarrow> string \<Rightarrow> error + 'v DB \<Rightarrow> error option \<Rightarrow> error + 'v Queue" where
  "Init c filepath opened fault =
     (case opened of
        Inl e \<Rightarrow> Inl e
      | Inr d \<Rightarrow>
         (let q = \<lparr>QueueID = filepath, db = d, notifier = [], PollRate = 500\<rparr>;
              (err, q') = processJobs c fault q
          in Inr q'))"

subsection \<open>The dispatch loop\<close>

text \<open>
  Modelled from the spec: the Worker interface is declared outside queue.go; the loop calls
  its \<open>ID()\<close> (here \<open>WorkerID\<close>) and \<open>DoWork(ctx, job)\<close>, which returns an error or nil
  and is taken to leave the queue alone.

  \<open>Outcome\<close> says how one pass of the loop ended: by the cancellation, asleep on the
  default case, at the first \<open>continue\<close> (the pick-up mark failed), at the second (the
  fetch failed), or at the end of the body, after \<open>DoWork\<close> was called on the job and
  returned the given result. \<open>DoWork\<close> is called on the last path only.
\<close>

record Worker =
  WorkerID :: string
  DoWork :: "Job \<Rightarrow> error option"

datatype Outcome =
    Exited
  | Slept
  | PickupFailed error
  | FetchFailed error
  | Worked Job "error option"

text \<open>
  The body of the receive case for the ID \<open>jobID\<close> taken from the channel. \<open>f1\<close>, \<open>f2\<close>
  and \<open>f3\<close> are the faults of its three transactions, in order.
\<close>

definition receive_case ::
  "'v codec \<Rightarrow> Worker \<Rightarrow> error option \<Rightarrow> error option \<Rightarrow> error option \<Rightarrow> bytes \<Rightarrow> 'v Queue
     \<Rightarrow> (Outcome \<times> 'v Queue) option" where
  "receive_case c w f1 f2 f3 jobID q =
     (case updateJobStatus c f1 jobID Uack (''Picked up by '' @ WorkerID w) q of
        None \<Rightarrow> None
      | Some (Some e, q1) \<Rightarrow> Some (PickupFailed e, q1)
      | Some (None, q1) \<Rightarrow>
         (case GetJobByID c f2 jobID q1 of
            Inl e \<Rightarrow>
              map_option (\<lambda>(_, q2). (FetchFailed e, q2))
                (updateJobStatus c f3 jobID Failed (Error e) q1)
          | Inr job \<Rightarrow>
             (case DoWork w job of
                Some e \<Rightarrow>
                  (case e of
                     RecoverableWorkerError _ \<Rightarrow>
                       map_option (\<lambda>(_, q2). (Worked job (Some e), q2))
                         (updateJobStatus c f3 jobID Nack (Error e) q1)
                   | _ \<Rightarrow>
                       map_option (\<lambda>(_, q2). (Worked job (Some e), q2))
                         (updateJobStatus c f3 jobID Failed (Error e) q1))
              | None \<Rightarrow>
                  map_option (\<lambda>(_, q2). (Worked job None, q2))
                    (updateJobStatus c f3 jobID Ack ''Complete'' q1))))"

text \<open>
  One pass of the loop of \<open>registerWorkerWithContext\<close>. \<open>cancelled\<close> says whether the
  context is done; when it is and an ID is waiting too, Go's select takes either case,
  and \<open>takeDone\<close> says which.
\<close>

definition registerWorkerWithContext_pass ::
  "'v codec \<Rightarrow> Worker \<Rightarrow> bool \<Rightarrow> bool \<Rightarrow> error option \<Rightarrow> error option \<Rightarrow> error option
     \<Rightarrow> 'v Queue \<Rightarrow> (Outcome \<times> 'v Queue) option" where
  "registerWorkerWithContext_pass c w cancelled takeDone f1 f2 f3 q =
     (if cancelled \<and> (notifier q = [] \<or> takeDone) then Some (Exited, q)
      else case notifier q of
             [] \<Rightarrow> Some (Slept, q)
           | jobID # rest \<Rightarrow> receive_case c w f1 f2 f3 jobID (q\<lparr>notifier := rest\<rparr>))"

subsection \<open>What the claims speak of\<close>

text \<open>
  The record a status update is meant to leave, in the words of the spec: status and
  message as given, the retry count one higher exactly for \<open>Nack\<close>.
\<close>

definition spec_marked :: "Job \<Rightarrow> JobStatus \<Rightarrow> string \<Rightarrow> Job" where
  "spec_marked j status message =
     j\<lparr>Status := status, Message := message,
       RetryCount := RetryCount j + (if status = Nack then 1 else 0)\<rparr>"

text \<open>The largest value of a Go integer of 64 bits.\<close>

definition MaxInt64 :: int where
  "MaxInt64 = 9223372036854775807"

text \<open>The terminal statuses, and the records of a store that are not terminal.\<close>

fun terminal :: "JobStatus \<Rightarrow> bool" where
  "terminal Ack = True"
| "terminal Failed = True"
| "terminal Uack = False"
| "terminal Nack = False"

definition live_entry :: "'v codec \<Rightarrow> bytes \<times> 'v \<Rightarrow> bool" where
  "live_entry c p = (\<not> terminal (Status (DecodeJob c (snd p))))"

text \<open>The IDs that the loop of \<open>processJobs\<close> asks the transaction to delete.\<close>

definition doomed :: "'v codec \<Rightarrow> 'v list \<Rightarrow> bytes list" where
  "doomed c entries =
     map (\<lambda>e. ID (DecodeJob c e)) (filter (\<lambda>e. terminal (Status (DecodeJob c e))) entries)"

text \<open>
  The invariant of the bucket: one entry per key, and each record stored under its own
  ID. Every operation of the engine keeps it (\<open>store_ok_engine_op\<close> below).
\<close>

definition keyed_by_ID :: "'v codec \<Rightarrow> bytes \<times> 'v \<Rightarrow> bool" where
  "keyed_by_ID c p = (ID (DecodeJob c (snd p)) = fst p)"

definition store_ok :: "'v codec \<Rightarrow> 'v DB \<Rightarrow> bool" where
  "store_ok c d = (distinct (map fst d) \<and> list_all (keyed_by_ID c) d)"

text \<open>
  The status and the message that the spec gives for a result of \<open>DoWork\<close>.
\<close>

fun spec_status :: "error option \<Rightarrow> JobStatus" where
  "spec_status None = Ack"
| "spec_status (Some (RecoverableWorkerError s)) = Nack"
| "spec_status (Some e) = Failed"

fun spec_message :: "error option \<Rightarrow> string" where
  "spec_message None = ''Complete''"
| "spec_message (Some e) = Error e"

text \<open>
  The operations of the engine that write to the store, with the arguments of each call,
  and the queue each leaves (\<open>None\<close>: the call is blocked on the full channel).
  \<open>fresh_token\<close> says that the token of a push is not a key of the store, which is
  what the UUID generator is trusted for. \<open>nacks op k\<close> says that \<open>op\<close> is a status
  update of \<open>k\<close> to \<open>Nack\<close> whose write the storage layer does not fail.
\<close>

datatype Op =
    OpPushJob bytes "error option" Job
  | OpPushBytes bytes "error option" bytes
  | OpUpdateJobStatus "error option" bytes JobStatus string
  | OpProcessJobs "error option"

fun engine_op :: "'v codec \<Rightarrow> Op \<Rightarrow> 'v Queue \<Rightarrow> 'v Queue option" where
  "engine_op c (OpPushJob u fault j) q = map_option (snd \<circ> snd) (PushJob c u fault j q)"
| "engine_op c (OpPushBytes u fault d) q = map_option (snd \<circ> snd) (PushBytes c u fault d q)"
| "engine_op c (OpUpdateJobStatus fault jid status message) q =
     map_option snd (updateJobStatus c fault jid status message q)"
| "engine_op c (OpProcessJobs fault) q = Some (snd (processJobs c fault q))"

fun fresh_token :: "Op \<Rightarrow> 'v Queue \<Rightarrow> bool" where
  "fresh_token (OpPushJob u fault j) q = (u \<notin> set (map fst (db q)))"
| "fresh_token (OpPushBytes u fault d) q = (u \<notin> set (map fst (db q)))"
| "fresh_token (OpUpdateJobStatus fault jid status message) q = True"
| "fresh_token (OpProcessJobs fault) q = True"

fun nacks :: "Op \<Rightarrow> bytes \<Rightarrow> bool" where
  "nacks (OpUpdateJobStatus fault jid status message) k = (fault = None \<and> jid = k \<and> status = Nack)"
| "nacks (OpPushJob u fault j) k = False"
| "nacks (OpPushBytes u fault d) k = False"
| "nacks (OpProcessJobs fault) k = False"

text \<open>A run of operations, one after the other, as long as none is blocked.\<close>

fun engine_run :: "'v codec \<Rightarrow> Op list \<Rightarrow> 'v Queue \<Rightarrow> 'v Queue option" where
  "engine_run c [] q = Some q"
| "engine_run c (op # ops) q =
     (case engine_op c op q of None \<Rightarrow> None | Some q' \<Rightarrow> engine_run c ops q')"

text \<open>
  A codec for the examples: the stored value is the record itself.
\<close>

definition plain_codec :: "Job codec" where
  "plain_codec = \<lparr>Bytes = id, DecodeJob = id\<rparr>"

section \<open>Properties\<close>

subsection \<open>Transactions\<close>

lemma db_Update_Inr:
  "body d = Inr tx \<Longrightarrow> db_Update fault body d = (fault, if fault = None then tx else d)"
  by (cases fault) (simp_all add: db_Update_def)

lemma db_Update_Inl: "body d = Inl e \<Longrightarrow> db_Update fault body d = (Some e, d)"
  by (simp add: db_Update_def)

lemma tx_Get_Put_same: "tx_Get (tx_Put tx k v) k = Inr v"
  by (simp add: tx_Get_def tx_Put_def update_conv')

lemma tx_Get_Put_other: "k' \<noteq> k \<Longrightarrow> tx_Get (tx_Put tx k v) k' = tx_Get tx k'"
  by (simp add: tx_Get_def tx_Put_def update_conv')

lemma roundtripD: "roundtrip c \<Longrightarrow> DecodeJob c (Bytes c j) = j"
  by (simp add: roundtrip_def)

lemma roundtrip_plain_codec: "roundtrip plain_codec"
  by (simp add: roundtrip_def plain_codec_def)

subsection \<open>The invariant\<close>

lemma store_ok_lookup:
  assumes "store_ok c d" and "map_of d k = Some v"
  shows "ID (DecodeJob c v) = k"
proof -
  from assms(2) have "(k, v) \<in> set d" by (rule map_of_SomeD)
  with assms(1) show ?thesis
    by (auto simp: store_ok_def list_all_iff keyed_by_ID_def)
qed

lemma set_update_subset: "set (AList.update k v al) \<subseteq> insert (k, v) (set al)"
  by (induction al) auto

lemma store_ok_Put:
  assumes "store_ok c d" and "ID (DecodeJob c v) = k"
  shows "store_ok c (tx_Put d k v)"
proof -
  have "distinct (map fst (AList.update k v d))"
    using assms(1) by (simp add: store_ok_def distinct_update)
  moreover have "list_all (keyed_by_ID c) (AList.update k v d)"
    using assms set_update_subset [of k v d]
    by (auto simp: store_ok_def list_all_iff keyed_by_ID_def)
  ultimately show ?thesis by (simp add: store_ok_def tx_Put_def)
qed

lemma store_ok_filter: "store_ok c d \<Longrightarrow> store_ok c (filter P d)"
  by (auto simp: store_ok_def list_all_iff distinct_map_filter)

subsection \<open>updateJobStatus\<close>

lemma updateJobStatus_body_found:
  assumes "map_of tx jid = Some v"
  shows "updateJobStatus_body c jid status message tx =
           Inr (tx_Put tx (ID (DecodeJob c v)) (Bytes c (spec_marked (DecodeJob c v) status message)))"
  using assms by (simp add: updateJobStatus_body_def tx_Get_def spec_marked_def Let_def)

lemma updateJobStatus_body_absent:
  assumes "map_of tx jid = None"
  shows "updateJobStatus_body c jid status message tx = Inl ErrNotFound"
  using assms by (simp add: updateJobStatus_body_def tx_Get_def)

lemma updateJobStatus_absent:
  assumes "map_of (db q) jid = None"
  shows "updateJobStatus c fault jid status message q = Some (Some ErrNotFound, q)"
proof -
  have "updateJobStatus_body c jid status message (db q) = Inl ErrNotFound"
    using assms by (rule updateJobStatus_body_absent)
  then have "db_Update fault (updateJobStatus_body c jid status message) (db q)
               = (Some ErrNotFound, db q)"
    by (simp add: db_Update_def)
  then show ?thesis by (simp add: updateJobStatus_def)
qed

lemma updateJobStatus_found:
  assumes "map_of (db q) jid = Some v"
  shows "updateJobStatus c fault jid status message q =
     (if status = Nack \<and> fault = None \<and> \<not> length (notifier q) < notifierCap then None
      else Some (fault,
        q\<lparr>db := (if fault = None
                  then tx_Put (db q) (ID (DecodeJob c v))
                         (Bytes c (spec_marked (DecodeJob c v) status message))
                  else db q),
           notifier := (if status = Nack \<and> fault = None then notifier q @ [jid] else notifier q)\<rparr>))"
proof -
  have "updateJobStatus_body c jid status message (db q) =
          Inr (tx_Put (db q) (ID (DecodeJob c v))
                 (Bytes c (spec_marked (DecodeJob c v) status message)))"
    using assms by (rule updateJobStatus_body_found)
  then have "db_Update fault (updateJobStatus_body c jid status message) (db q) =
          (fault, if fault = None
                  then tx_Put (db q) (ID (DecodeJob c v))
                         (Bytes c (spec_marked (DecodeJob c v) status message))
                  else db q)"
    by (cases fault) (simp_all add: db_Update_def)
  then show ?thesis by (simp add: updateJobStatus_def chan_send_def)
qed

subsection \<open>PushJob and GetJobByID\<close>

lemma PushJob_commits:
  assumes "length (notifier q) < notifierCap"
  shows "PushJob c u None j q =
           Some (Inr u, j\<lparr>ID := u\<rparr>,
                 q\<lparr>db := tx_Put (db q) u (Bytes c (j\<lparr>ID := u\<rparr>)),
                   notifier := notifier q @ [u]\<rparr>)"
  using assms by (simp add: PushJob_def db_Update_def chan_send_def Let_def)

lemma PushJob_fails:
  "PushJob c u (Some e) j q = Some (Inl e, j\<lparr>ID := u\<rparr>, q)"
  by (simp add: PushJob_def db_Update_def Let_def)

lemma PushJob_blocks:
  assumes "\<not> length (notifier q) < notifierCap"
  shows "PushJob c u None j q = None"
  using assms by (simp add: PushJob_def db_Update_def chan_send_def Let_def)

lemma PushJob_Inr:
  assumes "PushJob c u fault j q = Some (Inr i, j', q')"
  shows "fault = None \<and> length (notifier q) < notifierCap \<and> i = u \<and> j' = j\<lparr>ID := u\<rparr>
         \<and> q' = q\<lparr>db := tx_Put (db q) u (Bytes c (j\<lparr>ID := u\<rparr>)), notifier := notifier q @ [u]\<rparr>"
proof (cases fault)
  case (Some e)
  with assms show ?thesis by (simp add: PushJob_fails)
next
  case None
  show ?thesis
  proof (cases "length (notifier q) < notifierCap")
    case True
    with assms None show ?thesis by (auto simp add: PushJob_commits)
  next
    case False
    with assms None show ?thesis by (simp add: PushJob_blocks)
  qed
qed

lemma GetJobByID_found:
  assumes "map_of (db q) jid = Some v"
  shows "GetJobByID c None jid q = Inr (DecodeJob c v)"
  using assms by (simp add: GetJobByID_def db_View_def tx_Get_def)

lemma GetJobByID_absent:
  assumes "map_of (db q) jid = None"
  shows "GetJobByID c None jid q = Inl ErrNotFound"
  using assms by (simp add: GetJobByID_def db_View_def tx_Get_def)

lemma GetJobByID_fault: "GetJobByID c (Some e) jid q = Inl e"
  by (simp add: GetJobByID_def db_View_def)

lemma GetJobByID_Put:
  assumes "roundtrip c"
  shows "GetJobByID c None k (q\<lparr>db := tx_Put d k (Bytes c j), notifier := ch\<rparr>) = Inr j"
  using assms
  by (simp add: GetJobByID_def db_View_def tx_Get_Put_same roundtripD)

subsection \<open>Claims about PushJob, PushBytes and GetJobByID\<close>

text \<open>
  C1, as amended. \<open>PushJob\<close> overwrites the ID of the job with the generated token and
  changes no other field: the status and the retry count are stored as the caller
  passed them. When the write is not failed and the channel has room, the call returns
  the token, and the record read back under the token is the caller's job with the new ID.
\<close>

theorem PushJob_overwrites_ID_alone:
  assumes "roundtrip c" and "length (notifier q) < notifierCap"
  shows "PushJob c u None j q =
           Some (Inr u, j\<lparr>ID := u\<rparr>,
                 q\<lparr>db := tx_Put (db q) u (Bytes c (j\<lparr>ID := u\<rparr>)),
                   notifier := notifier q @ [u]\<rparr>)
         \<and> GetJobByID c None u
               (q\<lparr>db := tx_Put (db q) u (Bytes c (j\<lparr>ID := u\<rparr>)),
                  notifier := notifier q @ [u]\<rparr>)
             = Inr \<lparr>ID = u, Data = Data j, Status = Status j, Message = Message j,
                    RetryCount = RetryCount j\<rparr>"
proof -
  have "j\<lparr>ID := u\<rparr> =
          \<lparr>ID = u, Data = Data j, Status = Status j, Message = Message j,
           RetryCount = RetryCount j\<rparr>"
    by simp
  with assms show ?thesis
    by (simp only: PushJob_commits GetJobByID_Put simp_thms)
qed

theorem PushJob_overwrites_ID_alone_witness:
  "roundtrip plain_codec
   \<and> length (notifier \<lparr>QueueID = ''q'', db = [], notifier = [], PollRate = 500\<rparr>) < notifierCap
   \<and> GetJobByID plain_codec None ''u1''
        \<lparr>QueueID = ''q'',
         db = [(''u1'', \<lparr>ID = ''u1'', Data = ''d'', Status = Ack, Message = [], RetryCount = 5\<rparr>)],
         notifier = [''u1''], PollRate = 500\<rparr>
      = Inr \<lparr>ID = ''u1'', Data = ''d'', Status = Ack, Message = [], RetryCount = 5\<rparr>"
proof -
  have r: "roundtrip plain_codec" by (rule roundtrip_plain_codec)
  have l: "length (notifier \<lparr>QueueID = ''q'', db = ([] :: Job DB), notifier = [], PollRate = 500\<rparr>)
             < notifierCap"
    by (simp add: notifierCap_def)
  show ?thesis
    using PushJob_overwrites_ID_alone [OF r l, of "''u1''"
        "\<lparr>ID = ''x'', Data = ''d'', Status = Ack, Message = [], RetryCount = 5\<rparr>"] r l
    by (simp add: tx_Put_def plain_codec_def)
qed

text \<open>
  C1 as the spec states it does not hold: a job pushed with status \<open>Ack\<close> and retry
  count 5 is stored, and handed back, with status \<open>Ack\<close> and retry count 5.
\<close>

theorem PushJob_keeps_status_counterexample:
  "PushJob plain_codec ''u1'' None
      \<lparr>ID = ''x'', Data = ''d'', Status = Ack, Message = [], RetryCount = 5\<rparr>
      \<lparr>QueueID = ''q'', db = [], notifier = [], PollRate = 500\<rparr>
   = Some (Inr ''u1'',
       \<lparr>ID = ''u1'', Data = ''d'', Status = Ack, Message = [], RetryCount = 5\<rparr>,
       \<lparr>QueueID = ''q'',
        db = [(''u1'', \<lparr>ID = ''u1'', Data = ''d'', Status = Ack, Message = [], RetryCount = 5\<rparr>)],
        notifier = [''u1''], PollRate = 500\<rparr>)
   \<and> Status \<lparr>ID = ''u1'', Data = ''d'', Status = Ack, Message = [], RetryCount = 5\<rparr> \<noteq> Uack
   \<and> RetryCount \<lparr>ID = ''u1'', Data = ''d'', Status = Ack, Message = [], RetryCount = 5\<rparr> \<noteq> 0"
  by (simp add: PushJob_def db_Update_def chan_send_def tx_Put_def notifierCap_def
        plain_codec_def Let_def)

text \<open>
  C2. When the storage layer fails the write of \<open>PushJob\<close>, the call returns that error
  and leaves the queue, store and channel, as it was (the caller's job has the new ID all
  the same). When the write is not failed, the call appends the new ID, and nothing
  else, to the channel and returns it; this needs room in the channel, without which the
  send does not return.
\<close>

theorem PushJob_error_or_signal:
  "PushJob c u (Some e) j q = Some (Inl e, j\<lparr>ID := u\<rparr>, q)
   \<and> (length (notifier q) < notifierCap \<longrightarrow>
        PushJob c u None j q =
          Some (Inr u, j\<lparr>ID := u\<rparr>,
                q\<lparr>db := tx_Put (db q) u (Bytes c (j\<lparr>ID := u\<rparr>)),
                  notifier := notifier q @ [u]\<rparr>))"
  by (simp add: PushJob_fails PushJob_commits)

theorem PushJob_error_or_signal_witness:
  "length (notifier \<lparr>QueueID = ''q'', db = [], notifier = [''u0''], PollRate = 500\<rparr>) < notifierCap
   \<and> PushJob plain_codec ''u1'' (Some (StoreError ''disk full''))
        \<lparr>ID = [], Data = ''d'', Status = Uack, Message = [], RetryCount = 0\<rparr>
        \<lparr>QueueID = ''q'', db = [], notifier = [''u0''], PollRate = 500\<rparr>
      = Some (Inl (StoreError ''disk full''),
          \<lparr>ID = ''u1'', Data = ''d'', Status = Uack, Message = [], RetryCount = 0\<rparr>,
          \<lparr>QueueID = ''q'', db = [], notifier = [''u0''], PollRate = 500\<rparr>)
   \<and> PushJob plain_codec ''u1'' None
        \<lparr>ID = [], Data = ''d'', Status = Uack, Message = [], RetryCount = 0\<rparr>
        \<lparr>QueueID = ''q'', db = [], notifier = [''u0''], PollRate = 500\<rparr>
      = Some (Inr ''u1'',
          \<lparr>ID = ''u1'', Data = ''d'', Status = Uack, Message = [], RetryCount = 0\<rparr>,
          \<lparr>QueueID = ''q'',
           db = [(''u1'', \<lparr>ID = ''u1'', Data = ''d'', Status = Uack, Message = [], RetryCount = 0\<rparr>)],
           notifier = [''u0'', ''u1''], PollRate = 500\<rparr>)"
proof -
  have l: "length (notifier \<lparr>QueueID = ''q'', db = ([] :: Job DB), notifier = [''u0''], PollRate = 500\<rparr>)
             < notifierCap"
    by (simp add: notifierCap_def)
  show ?thesis
    using PushJob_error_or_signal [of plain_codec "''u1''" "StoreError ''disk full''"
        "\<lparr>ID = [], Data = ''d'', Status = Uack, Message = [], RetryCount = 0\<rparr>"
        "\<lparr>QueueID = ''q'', db = [], notifier = [''u0''], PollRate = 500\<rparr>"] l
    by (simp add: tx_Put_def plain_codec_def)
qed

text \<open>
  C8. When \<open>PushBytes\<close> of a payload returns an ID, \<open>GetJobByID\<close> of that ID on the queue
  it leaves returns the job with that ID, the payload, status \<open>Uack\<close> and retry count 0;
  and \<open>GetJobByID\<close> of a key that the store does not hold returns the not-found error.
  (The read transactions are not failed by the storage layer.)
\<close>

theorem GetJobByID_after_PushBytes:
  "(roundtrip c \<longrightarrow> PushBytes c u fault d q = Some (Inr i, j', q') \<longrightarrow>
      GetJobByID c None i q' =
        Inr \<lparr>ID = i, Data = d, Status = Uack, Message = [], RetryCount = 0\<rparr>)
   \<and> (map_of (db q) k = None \<longrightarrow> GetJobByID c None k q = Inl ErrNotFound)"
proof (intro conjI impI)
  assume r: "roundtrip c" and p: "PushBytes c u fault d q = Some (Inr i, j', q')"
  from p have "PushJob c u fault \<lparr>ID = [], Data = d, Status = Uack, Message = [], RetryCount = 0\<rparr> q
                 = Some (Inr i, j', q')"
    by (simp add: PushBytes_def)
  from PushJob_Inr [OF this]
  have i: "i = u"
    and q': "q' = q\<lparr>db := tx_Put (db q) u
                     (Bytes c (\<lparr>ID = [], Data = d, Status = Uack, Message = [], RetryCount = 0\<rparr>
                        \<lparr>ID := u\<rparr>)),
                   notifier := notifier q @ [u]\<rparr>"
    by simp_all
  show "GetJobByID c None i q' =
          Inr \<lparr>ID = i, Data = d, Status = Uack, Message = [], RetryCount = 0\<rparr>"
    unfolding i q' by (simp add: GetJobByID_Put [OF r])
next
  assume "map_of (db q) k = None"
  then show "GetJobByID c None k q = Inl ErrNotFound" by (rule GetJobByID_absent)
qed

theorem GetJobByID_after_PushBytes_witness:
  "roundtrip plain_codec
   \<and> PushBytes plain_codec ''u1'' None ''build-123''
        \<lparr>QueueID = ''q'', db = [], notifier = [], PollRate = 500\<rparr>
      = Some (Inr ''u1'',
          \<lparr>ID = ''u1'', Data = ''build-123'', Status = Uack, Message = [], RetryCount = 0\<rparr>,
          \<lparr>QueueID = ''q'',
           db = [(''u1'', \<lparr>ID = ''u1'', Data = ''build-123'', Status = Uack, Message = [],
                            RetryCount = 0\<rparr>)],
           notifier = [''u1''], PollRate = 500\<rparr>)
   \<and> GetJobByID plain_codec None ''u1''
        \<lparr>QueueID = ''q'',
         db = [(''u1'', \<lparr>ID = ''u1'', Data = ''build-123'', Status = Uack, Message = [],
                          RetryCount = 0\<rparr>)],
         notifier = [''u1''], PollRate = 500\<rparr>
      = Inr \<lparr>ID = ''u1'', Data = ''build-123'', Status = Uack, Message = [], RetryCount = 0\<rparr>
   \<and> map_of (db \<lparr>QueueID = ''q'', db = ([] :: Job DB), notifier = [], PollRate = 500\<rparr>) ''u2'' = None
   \<and> GetJobByID plain_codec None ''u2''
        \<lparr>QueueID = ''q'', db = [], notifier = [], PollRate = 500\<rparr>
      = Inl ErrNotFound"
proof -
  have r: "roundtrip plain_codec" by (rule roundtrip_plain_codec)
  have p: "PushBytes plain_codec ''u1'' None ''build-123''
        \<lparr>QueueID = ''q'', db = [], notifier = [], PollRate = 500\<rparr>
      = Some (Inr ''u1'',
          \<lparr>ID = ''u1'', Data = ''build-123'', Status = Uack, Message = [], RetryCount = 0\<rparr>,
          \<lparr>QueueID = ''q'',
           db = [(''u1'', \<lparr>ID = ''u1'', Data = ''build-123'', Status = Uack, Message = [],
                            RetryCount = 0\<rparr>)],
           notifier = [''u1''], PollRate = 500\<rparr>)"
    by (simp add: PushBytes_def PushJob_def db_Update_def chan_send_def tx_Put_def
          notifierCap_def plain_codec_def Let_def)
  have a: "map_of (db \<lparr>QueueID = ''q'', db = ([] :: Job DB), notifier = [], PollRate = 500\<rparr>) ''u2''
             = None"
    by simp
  show ?thesis
    using GetJobByID_after_PushBytes [of plain_codec "''u1''" None "''build-123''"
        "\<lparr>QueueID = ''q'', db = [], notifier = [], PollRate = 500\<rparr>" "''u1''" _ _ "''u2''"] r p a
    by simp
qed

subsection \<open>Claims about updateJobStatus\<close>

lemma spec_marked_fields:
  "ID (spec_marked j status message) = ID j"
  "Data (spec_marked j status message) = Data j"
  "Status (spec_marked j status message) = status"
  "Message (spec_marked j status message) = message"
  "RetryCount (spec_marked j status message) = RetryCount j + (if status = Nack then 1 else 0)"
  by (simp_all add: spec_marked_def)

text \<open>
  C3. For an ID whose record is in the store (under that ID, as the invariant has it),
  \<open>updateJobStatus\<close> reads the record, sets status and message, adds one to the retry
  count exactly for \<open>Nack\<close>, and writes the result under the same ID; the write takes
  effect unless the storage layer fails it, and the call returns that failure. The ID is
  appended to the channel exactly when the status is \<open>Nack\<close> and the write was not
  failed (the send needs room in the channel); otherwise the channel is as before.
\<close>

theorem updateJobStatus_marks_and_signals:
  assumes "map_of (db q) jid = Some v" and "ID (DecodeJob c v) = jid"
    and "status = Nack \<and> fault = None \<longrightarrow> length (notifier q) < notifierCap"
  shows "updateJobStatus c fault jid status message q =
     Some (fault,
       q\<lparr>db := (if fault = None
                 then tx_Put (db q) jid (Bytes c (spec_marked (DecodeJob c v) status message))
                 else db q),
          notifier := (if status = Nack \<and> fault = None then notifier q @ [jid]
                       else notifier q)\<rparr>)"
  using assms(2,3) by (cases fault) (simp_all add: updateJobStatus_found [OF assms(1)])

theorem updateJobStatus_marks_and_signals_witness:
  "map_of (db \<lparr>QueueID = ''q'',
               db = [(''a'', \<lparr>ID = ''a'', Data = ''d'', Status = Uack, Message = ''m'',
                               RetryCount = 2\<rparr>)],
               notifier = [''b''], PollRate = 500\<rparr>) ''a''
     = Some \<lparr>ID = ''a'', Data = ''d'', Status = Uack, Message = ''m'', RetryCount = 2\<rparr>
   \<and> updateJobStatus plain_codec None ''a'' Nack ''busy''
        \<lparr>QueueID = ''q'',
         db = [(''a'', \<lparr>ID = ''a'', Data = ''d'', Status = Uack, Message = ''m'',
                         RetryCount = 2\<rparr>)],
         notifier = [''b''], PollRate = 500\<rparr>
      = Some (None,
          \<lparr>QueueID = ''q'',
           db = [(''a'', \<lparr>ID = ''a'', Data = ''d'', Status = Nack, Message = ''busy'',
                           RetryCount = 3\<rparr>)],
           notifier = [''b'', ''a''], PollRate = 500\<rparr>)"
proof -
  have s: "map_of (db \<lparr>QueueID = ''q'',
               db = [(''a'', \<lparr>ID = ''a'', Data = ''d'', Status = Uack, Message = ''m'',
                               RetryCount = 2\<rparr>)],
               notifier = [''b''], PollRate = 500\<rparr>) ''a''
     = Some \<lparr>ID = ''a'', Data = ''d'', Status = Uack, Message = ''m'', RetryCount = 2\<rparr>"
    by simp
  have i: "ID (DecodeJob plain_codec
             \<lparr>ID = ''a'', Data = ''d'', Status = Uack, Message = ''m'', RetryCount = 2\<rparr>) = ''a''"
    by (simp add: plain_codec_def)
  have l: "Nack = Nack \<and> (None :: error option) = None \<longrightarrow>
           length (notifier \<lparr>QueueID = ''q'',
               db = [(''a'', \<lparr>ID = ''a'', Data = ''d'', Status = Uack, Message = ''m'',
                               RetryCount = 2\<rparr>)],
               notifier = [''b''], PollRate = 500\<rparr>) < notifierCap"
    by (simp add: notifierCap_def)
  show ?thesis
    using updateJobStatus_marks_and_signals [OF s i l, of "''busy''"] s
    by (simp add: tx_Put_def plain_codec_def spec_marked_def)
qed

text \<open>
  C10. In a store that satisfies the invariant, a call of \<open>updateJobStatus\<close> that
  returns no error leaves the record of its ID with the same ID and payload, status and
  message as given and the retry count raised by one exactly for \<open>Nack\<close>; every other
  key holds what it held, and the keys of the store are the same.
\<close>

theorem updateJobStatus_frame:
  assumes "roundtrip c" and "store_ok c (db q)"
    and "updateJobStatus c fault jid status message q = Some (None, q')"
  shows "\<exists>v v'. map_of (db q) jid = Some v \<and> map_of (db q') jid = Some v'
           \<and> DecodeJob c v' = spec_marked (DecodeJob c v) status message
           \<and> ID (DecodeJob c v') = ID (DecodeJob c v)
           \<and> Data (DecodeJob c v') = Data (DecodeJob c v)
           \<and> (\<forall>k. k \<noteq> jid \<longrightarrow> map_of (db q') k = map_of (db q) k)
           \<and> map fst (db q') = map fst (db q)"
proof (cases "map_of (db q) jid")
  case None
  with assms(3) show ?thesis by (simp add: updateJobStatus_absent)
next
  case (Some v)
  from assms(2) Some have i: "ID (DecodeJob c v) = jid" by (rule store_ok_lookup)
  let ?v' = "Bytes c (spec_marked (DecodeJob c v) status message)"
  from assms(3) have f: "fault = None"
    and q': "q' = q\<lparr>db := tx_Put (db q) jid ?v',
                    notifier := (if status = Nack then notifier q @ [jid] else notifier q)\<rparr>"
    by (auto simp add: updateJobStatus_found [OF Some] i split: if_splits)
  have d: "db q' = AList.update jid ?v' (db q)"
    by (simp add: q' tx_Put_def)
  from Some have "jid \<in> set (map fst (db q))"
    by (metis map_of_eq_None_iff option.distinct(1) set_map)
  then have keys: "map fst (db q') = map fst (db q)"
    by (simp add: d update_keys)
  have "map_of (db q') jid = Some ?v'"
    by (simp add: d update_conv')
  moreover have "DecodeJob c ?v' = spec_marked (DecodeJob c v) status message"
    using assms(1) by (rule roundtripD)
  moreover have "\<forall>k. k \<noteq> jid \<longrightarrow> map_of (db q') k = map_of (db q) k"
    by (simp add: d update_conv')
  ultimately show ?thesis
    using Some keys by (simp add: spec_marked_fields)
qed

theorem updateJobStatus_frame_witness:
  "roundtrip plain_codec
   \<and> store_ok plain_codec
        [(''a'', \<lparr>ID = ''a'', Data = ''d'', Status = Uack, Message = ''m'', RetryCount = 2\<rparr>),
         (''b'', \<lparr>ID = ''b'', Data = ''e'', Status = Nack, Message = ''n'', RetryCount = 1\<rparr>)]
   \<and> updateJobStatus plain_codec None ''a'' Nack ''busy''
        \<lparr>QueueID = ''q'',
         db = [(''a'', \<lparr>ID = ''a'', Data = ''d'', Status = Uack, Message = ''m'', RetryCount = 2\<rparr>),
               (''b'', \<lparr>ID = ''b'', Data = ''e'', Status = Nack, Message = ''n'', RetryCount = 1\<rparr>)],
         notifier = [], PollRate = 500\<rparr>
      = Some (None,
          \<lparr>QueueID = ''q'',
           db = [(''a'', \<lparr>ID = ''a'', Data = ''d'', Status = Nack, Message = ''busy'',
                           RetryCount = 3\<rparr>),
                 (''b'', \<lparr>ID = ''b'', Data = ''e'', Status = Nack, Message = ''n'', RetryCount = 1\<rparr>)],
           notifier = [''a''], PollRate = 500\<rparr>)
   \<and> (\<exists>v v'. map_of [(''a'', \<lparr>ID = ''a'', Data = ''d'', Status = Uack, Message = ''m'',
                                  RetryCount = 2\<rparr>),
                        (''b'', \<lparr>ID = ''b'', Data = ''e'', Status = Nack, Message = ''n'',
                                  RetryCount = 1\<rparr>)] ''a'' = Some v
         \<and> map_of [(''a'', \<lparr>ID = ''a'', Data = ''d'', Status = Nack, Message = ''busy'',
                              RetryCount = 3\<rparr>),
                    (''b'', \<lparr>ID = ''b'', Data = ''e'', Status = Nack, Message = ''n'',
                              RetryCount = 1\<rparr>)] ''a'' = Some v'
         \<and> Data (DecodeJob plain_codec v') = Data (DecodeJob plain_codec v))"
proof -
  have r: "roundtrip plain_codec" by (rule roundtrip_plain_codec)
  have s: "store_ok plain_codec (db
        \<lparr>QueueID = ''q'',
         db = [(''a'', \<lparr>ID = ''a'', Data = ''d'', Status = Uack, Message = ''m'', RetryCount = 2\<rparr>),
               (''b'', \<lparr>ID = ''b'', Data = ''e'', Status = Nack, Message = ''n'', RetryCount = 1\<rparr>)],
         notifier = [], PollRate = 500\<rparr>)"
    by (simp add: store_ok_def keyed_by_ID_def plain_codec_def)
  have u: "updateJobStatus plain_codec None ''a'' Nack ''busy''
        \<lparr>QueueID = ''q'',
         db = [(''a'', \<lparr>ID = ''a'', Data = ''d'', Status = Uack, Message = ''m'', RetryCount = 2\<rparr>),
               (''b'', \<lparr>ID = ''b'', Data = ''e'', Status = Nack, Message = ''n'', RetryCount = 1\<rparr>)],
         notifier = [], PollRate = 500\<rparr>
      = Some (None,
          \<lparr>QueueID = ''q'',
           db = [(''a'', \<lparr>ID = ''a'', Data = ''d'', Status = Nack, Message = ''busy'',
                           RetryCount = 3\<rparr>),
                 (''b'', \<lparr>ID = ''b'', Data = ''e'', Status = Nack, Message = ''n'', RetryCount = 1\<rparr>)],
           notifier = [''a''], PollRate = 500\<rparr>)"
    by (simp add: updateJobStatus_def updateJobStatus_body_def db_Update_def tx_Get_def
          tx_Put_def chan_send_def notifierCap_def plain_codec_def Let_def)
  show ?thesis
    using updateJobStatus_frame [OF r s u] r s u by (simp add: plain_codec_def spec_marked_def)
qed

subsection \<open>The sweep\<close>

lemma tx_Delete_filter: "tx_Delete tx k = filter (\<lambda>p. fst p \<noteq> k) tx"
  by (simp add: tx_Delete_def AList.delete_eq case_prod_unfold eq_commute)

lemma doomed_Cons:
  "doomed c (e # es) =
     (if terminal (Status (DecodeJob c e)) then ID (DecodeJob c e) # doomed c es
      else doomed c es)"
  by (simp add: doomed_def)

lemma processJobs_loop_filter:
  "processJobs_loop c es tx = filter (\<lambda>p. fst p \<notin> set (doomed c es)) tx"
proof (induction es arbitrary: tx)
  case Nil
  show ?case by (simp add: doomed_def)
next
  case (Cons e es)
  show ?case
  proof (cases "Status (DecodeJob c e)")
    case Uack
    then show ?thesis by (simp add: Cons.IH doomed_Cons)
  next
    case Nack
    then show ?thesis by (simp add: Cons.IH doomed_Cons)
  next
    case Ack
    then show ?thesis
      by (simp add: Cons.IH doomed_Cons tx_Delete_filter conj_commute)
  next
    case Failed
    then show ?thesis
      by (simp add: Cons.IH doomed_Cons tx_Delete_filter conj_commute)
  qed
qed

lemma doomed_iff:
  assumes "store_ok c d" and "p \<in> set d"
  shows "fst p \<in> set (doomed c (map snd d)) \<longleftrightarrow> \<not> live_entry c p"
proof
  assume "fst p \<in> set (doomed c (map snd d))"
  then obtain p' where p': "p' \<in> set d" "terminal (Status (DecodeJob c (snd p')))"
      "ID (DecodeJob c (snd p')) = fst p"
    by (auto simp: doomed_def)
  from assms(1) p'(1) have "ID (DecodeJob c (snd p')) = fst p'"
    by (simp add: store_ok_def list_all_iff keyed_by_ID_def)
  with p'(3) have "fst p' = fst p" by simp
  moreover from assms(1) have "inj_on fst (set d)"
    by (simp add: store_ok_def distinct_map)
  ultimately have "p' = p" using p'(1) assms(2) by (simp add: inj_on_def)
  with p'(2) show "\<not> live_entry c p" by (simp add: live_entry_def)
next
  assume "\<not> live_entry c p"
  then have t: "terminal (Status (DecodeJob c (snd p)))" by (simp add: live_entry_def)
  from assms have "ID (DecodeJob c (snd p)) = fst p"
    by (simp add: store_ok_def list_all_iff keyed_by_ID_def)
  with t assms(2) show "fst p \<in> set (doomed c (map snd d))"
    by (force simp: doomed_def)
qed

lemma sweep_store_ok:
  assumes "store_ok c d"
  shows "processJobs_loop c (tx_GetAll d) d = filter (live_entry c) d"
  unfolding processJobs_loop_filter tx_GetAll_def
  by (rule filter_cong [OF refl]) (simp add: doomed_iff [OF assms])

lemma processJobs_commits:
  assumes "store_ok c (db q)"
  shows "processJobs c None q = (None, q\<lparr>db := filter (live_entry c) (db q)\<rparr>)"
  by (simp add: processJobs_def db_Update_def sweep_store_ok [OF assms])

lemma processJobs_fails: "processJobs c (Some e) q = (Some e, q)"
  by (simp add: processJobs_def db_Update_def)

text \<open>
  C5. \<open>Init\<close> on a store that opens and satisfies the invariant returns a queue whose
  store holds the entries found whose status is not terminal, each as it was and in the
  same order, and none of the others; the channel of the queue is empty, so no ID was
  re-enqueued. That is when the storage layer does not fail the transaction of the sweep;
  when it does, \<open>Init\<close> drops the error and the store holds all the entries found.
\<close>

theorem Init_sweeps_terminal_only:
  assumes "store_ok c d"
  shows "Init c filepath (Inr d) fault =
           Inr \<lparr>QueueID = filepath,
                db = (if fault = None then filter (live_entry c) d else d),
                notifier = [], PollRate = 500\<rparr>"
proof (cases fault)
  case None
  have "store_ok c (db \<lparr>QueueID = filepath, db = d, notifier = [], PollRate = 500\<rparr>)"
    using assms by simp
  from processJobs_commits [OF this] None show ?thesis
    by (simp add: Init_def)
next
  case (Some e)
  then show ?thesis by (simp add: Init_def processJobs_fails)
qed

theorem Init_sweeps_terminal_only_witness:
  "store_ok plain_codec
     [(''a'', \<lparr>ID = ''a'', Data = ''d'', Status = Ack, Message = ''Complete'', RetryCount = 0\<rparr>),
      (''b'', \<lparr>ID = ''b'', Data = ''e'', Status = Uack, Message = [], RetryCount = 0\<rparr>),
      (''c'', \<lparr>ID = ''c'', Data = ''f'', Status = Failed, Message = ''no'', RetryCount = 1\<rparr>),
      (''d'', \<lparr>ID = ''d'', Data = ''g'', Status = Nack, Message = ''busy'', RetryCount = 2\<rparr>)]
   \<and> Init plain_codec ''/tmp/q''
        (Inr [(''a'', \<lparr>ID = ''a'', Data = ''d'', Status = Ack, Message = ''Complete'',
                        RetryCount = 0\<rparr>),
              (''b'', \<lparr>ID = ''b'', Data = ''e'', Status = Uack, Message = [], RetryCount = 0\<rparr>),
              (''c'', \<lparr>ID = ''c'', Data = ''f'', Status = Failed, Message = ''no'',
                        RetryCount = 1\<rparr>),
              (''d'', \<lparr>ID = ''d'', Data = ''g'', Status = Nack, Message = ''busy'',
                        RetryCount = 2\<rparr>)])
        None
      = Inr \<lparr>QueueID = ''/tmp/q'',
             db = [(''b'', \<lparr>ID = ''b'', Data = ''e'', Status = Uack, Message = [],
                             RetryCount = 0\<rparr>),
                   (''d'', \<lparr>ID = ''d'', Data = ''g'', Status = Nack, Message = ''busy'',
                             RetryCount = 2\<rparr>)],
             notifier = [], PollRate = 500\<rparr>"
proof -
  have s: "store_ok plain_codec
     [(''a'', \<lparr>ID = ''a'', Data = ''d'', Status = Ack, Message = ''Complete'', RetryCount = 0\<rparr>),
      (''b'', \<lparr>ID = ''b'', Data = ''e'', Status = Uack, Message = [], RetryCount = 0\<rparr>),
      (''c'', \<lparr>ID = ''c'', Data = ''f'', Status = Failed, Message = ''no'', RetryCount = 1\<rparr>),
      (''d'', \<lparr>ID = ''d'', Data = ''g'', Status = Nack, Message = ''busy'', RetryCount = 2\<rparr>)]"
    by (simp add: store_ok_def keyed_by_ID_def plain_codec_def)
  show ?thesis
    using Init_sweeps_terminal_only [OF s, of "''/tmp/q''" None] s
    by (simp add: live_entry_def plain_codec_def)
qed

subsection \<open>The operations of the engine\<close>

lemma engine_op_OpPushJob:
  assumes "engine_op c (OpPushJob u fault j) q = Some q'"
  shows "q' = q \<or> q' = q\<lparr>db := tx_Put (db q) u (Bytes c (j\<lparr>ID := u\<rparr>)),
                          notifier := notifier q @ [u]\<rparr>"
proof (cases fault)
  case (Some e)
  with assms show ?thesis by (simp add: PushJob_fails)
next
  case None
  with assms obtain r j' where "PushJob c u None j q = Some (r, j', q')"
    by auto
  then show ?thesis
    by (cases "length (notifier q) < notifierCap") (auto simp add: PushJob_commits PushJob_blocks)
qed

lemma engine_op_OpUpdateJobStatus:
  assumes "engine_op c (OpUpdateJobStatus fault jid status message) q = Some q'"
  shows "db q' =
     (case map_of (db q) jid of
        None \<Rightarrow> db q
      | Some v \<Rightarrow>
         if fault = None
         then tx_Put (db q) (ID (DecodeJob c v))
                (Bytes c (spec_marked (DecodeJob c v) status message))
         else db q)"
proof (cases "map_of (db q) jid")
  case None
  with assms show ?thesis by (auto simp add: updateJobStatus_absent)
next
  case (Some v)
  with assms show ?thesis
    by (cases fault) (auto simp add: updateJobStatus_found [OF Some] split: if_splits)
qed

lemma engine_op_OpProcessJobs:
  assumes "store_ok c (db q)" and "engine_op c (OpProcessJobs fault) q = Some q'"
  shows "db q' = db q \<or> db q' = filter (live_entry c) (db q)"
  using assms(2)
  by (cases fault) (auto simp add: processJobs_commits [OF assms(1)] processJobs_fails)

lemma store_ok_engine_op:
  assumes "roundtrip c" and "store_ok c (db q)" and "engine_op c op q = Some q'"
  shows "store_ok c (db q')"
proof (cases op)
  case (OpPushJob u fault j)
  have "store_ok c (tx_Put (db q) u (Bytes c (j\<lparr>ID := u\<rparr>)))"
    using assms(2) by (rule store_ok_Put) (simp add: roundtripD [OF assms(1)])
  with engine_op_OpPushJob [of c u fault j q q'] assms(2,3) OpPushJob show ?thesis
    by auto
next
  case (OpPushBytes u fault d)
  let ?j = "\<lparr>ID = [], Data = d, Status = Uack, Message = [], RetryCount = 0\<rparr>"
  have "store_ok c (tx_Put (db q) u (Bytes c (?j\<lparr>ID := u\<rparr>)))"
    using assms(2) by (rule store_ok_Put) (simp add: roundtripD [OF assms(1)])
  with engine_op_OpPushJob [of c u fault ?j q q'] assms(2,3) OpPushBytes show ?thesis
    by (auto simp add: PushBytes_def)
next
  case (OpUpdateJobStatus fault jid status message)
  have "store_ok c (tx_Put (db q) (ID (DecodeJob c v))
                      (Bytes c (spec_marked (DecodeJob c v) status message)))" for v
    using assms(2)
    by (rule store_ok_Put) (simp add: roundtripD [OF assms(1)] spec_marked_fields)
  with engine_op_OpUpdateJobStatus [of c fault jid status message q q'] assms(2,3)
    OpUpdateJobStatus
  show ?thesis by (auto split: option.splits if_splits)
next
  case (OpProcessJobs fault)
  with engine_op_OpProcessJobs [OF assms(2), of fault q'] assms(2,3) show ?thesis
    by (auto simp add: store_ok_filter)
qed

lemma store_ok_empty: "store_ok c []"
  by (simp add: store_ok_def)

lemma store_ok_engine_run:
  assumes "roundtrip c"
  shows "store_ok c (db q) \<Longrightarrow> engine_run c ops q = Some q' \<Longrightarrow> store_ok c (db q')"
proof (induction ops arbitrary: q)
  case Nil
  then show ?case by simp
next
  case (Cons op ops)
  from Cons.prems(2) obtain q1 where
    q1: "engine_op c op q = Some q1" and rest: "engine_run c ops q1 = Some q'"
    by (auto split: option.splits)
  from assms Cons.prems(1) q1 have "store_ok c (db q1)" by (rule store_ok_engine_op)
  from this rest show ?case by (rule Cons.IH)
qed

lemma map_of_filter_Some:
  assumes "distinct (map fst d)" and "map_of (filter P d) k = Some v"
  shows "map_of d k = Some v"
proof -
  from assms(2) have "(k, v) \<in> set (filter P d)" by (rule map_of_SomeD)
  then have "(k, v) \<in> set d" by simp
  with assms(1) show ?thesis by simp
qed

lemma map_of_Put_other: "k \<noteq> u \<Longrightarrow> map_of (tx_Put d u x) k = map_of d k"
  by (simp add: tx_Put_def update_conv')

lemma map_of_Put_same: "map_of (tx_Put d u x) u = Some x"
  by (simp add: tx_Put_def update_conv')

lemma stored_key: "map_of d k = Some v \<Longrightarrow> k \<in> set (map fst d)"
  by (metis map_of_eq_None_iff option.distinct(1) set_map)

subsection \<open>The retry count\<close>

lemma sint_succ_below_max:
  fixes n :: "64 word"
  assumes "sint n < MaxInt64"
  shows "sint (n + 1) = sint n + 1"
proof -
  have "sint (n + 1) = signed_take_bit 63 (sint n + 1)"
    by (simp add: sint_word_ariths)
  moreover have "- (2 ^ 63) \<le> sint n + 1"
    using sint_ge [of n] by simp
  moreover have "sint n + 1 < 2 ^ 63"
    using assms by (simp add: MaxInt64_def)
  ultimately show ?thesis
    by (simp add: signed_take_bit_int_eq_self)
qed

lemma RetryCount_word_step:
  assumes "roundtrip c" and "store_ok c (db q)" and "fresh_token op q"
    and "engine_op c op q = Some q'"
    and "map_of (db q) k = Some v" and "map_of (db q') k = Some v'"
  shows "RetryCount (DecodeJob c v') =
           RetryCount (DecodeJob c v) + (if nacks op k then 1 else 0)"
proof -
  have k: "k \<in> set (map fst (db q))" using assms(5) by (rule stored_key)
  show ?thesis
  proof (cases op)
    case (OpPushJob u fault j)
    with assms(3) k have "k \<noteq> u" by auto
    with engine_op_OpPushJob [of c u fault j q q'] assms(4) OpPushJob
    have "map_of (db q') k = map_of (db q) k"
      by (auto simp add: map_of_Put_other)
    with assms(5,6) OpPushJob show ?thesis by simp
  next
    case (OpPushBytes u fault d)
    with assms(3) k have "k \<noteq> u" by auto
    with engine_op_OpPushJob [of c u fault
        "\<lparr>ID = [], Data = d, Status = Uack, Message = [], RetryCount = 0\<rparr>" q q']
      assms(4) OpPushBytes
    have "map_of (db q') k = map_of (db q) k"
      by (auto simp add: map_of_Put_other PushBytes_def)
    with assms(5,6) OpPushBytes show ?thesis by simp
  next
    case (OpUpdateJobStatus fault jid status message)
    note d = engine_op_OpUpdateJobStatus [of c fault jid status message q q']
    show ?thesis
    proof (cases "jid = k")
      case True
      show ?thesis
      proof (cases fault)
        case None
        from assms(2,5) have "ID (DecodeJob c v) = k" by (rule store_ok_lookup)
        with d assms(4,5) OpUpdateJobStatus True None
        have "db q' = tx_Put (db q) k (Bytes c (spec_marked (DecodeJob c v) status message))"
          by simp
        with assms(6) have "v' = Bytes c (spec_marked (DecodeJob c v) status message)"
          by (simp add: map_of_Put_same)
        then have "DecodeJob c v' = spec_marked (DecodeJob c v) status message"
          by (simp add: roundtripD [OF assms(1)])
        with OpUpdateJobStatus True None show ?thesis
          by (simp add: spec_marked_fields)
      next
        case (Some e)
        with d assms(4,5) OpUpdateJobStatus True have "db q' = db q" by simp
        with assms(5,6) OpUpdateJobStatus Some show ?thesis by simp
      qed
    next
      case False
      have "map_of (db q') k = map_of (db q) k"
      proof (cases "map_of (db q) jid")
        case None
        with d assms(4) OpUpdateJobStatus show ?thesis by simp
      next
        case (Some w)
        from assms(2) Some have "ID (DecodeJob c w) = jid" by (rule store_ok_lookup)
        with d assms(4) OpUpdateJobStatus Some False show ?thesis
          by (cases fault) (simp_all add: map_of_Put_other)
      qed
      with assms(5,6) OpUpdateJobStatus False show ?thesis by simp
    qed
  next
    case (OpProcessJobs fault)
    from assms(2) have dist: "distinct (map fst (db q))" by (simp add: store_ok_def)
    from engine_op_OpProcessJobs [OF assms(2), of fault q'] assms(4) OpProcessJobs
    have "db q' = db q \<or> db q' = filter (live_entry c) (db q)" by simp
    then have "map_of (db q) k = Some v'"
    proof
      assume "db q' = db q"
      with assms(6) show ?thesis by simp
    next
      assume "db q' = filter (live_entry c) (db q)"
      with assms(6) have "map_of (filter (live_entry c) (db q)) k = Some v'" by simp
      with dist show ?thesis by (rule map_of_filter_Some)
    qed
    with assms(5) OpProcessJobs show ?thesis by simp
  qed
qed

text \<open>
  C4 as the spec states it does not hold. A job pushed with the largest retry count a Go
  integer holds is stored with that count; the update of its status to \<open>Nack\<close> then
  leaves the count at the smallest integer, which is negative and below the count before.
\<close>

theorem RetryCount_wraps_counterexample:
  "engine_run plain_codec
     [OpPushJob ''u1'' None
        \<lparr>ID = [], Data = ''d'', Status = Uack, Message = [], RetryCount = 9223372036854775807\<rparr>,
      OpUpdateJobStatus None ''u1'' Nack ''busy'']
     \<lparr>QueueID = ''q'', db = [], notifier = [], PollRate = 500\<rparr>
   = Some \<lparr>QueueID = ''q'',
           db = [(''u1'', \<lparr>ID = ''u1'', Data = ''d'', Status = Nack, Message = ''busy'',
                            RetryCount = 9223372036854775808\<rparr>)],
           notifier = [''u1'', ''u1''], PollRate = 500\<rparr>
   \<and> sint (RetryCount
        \<lparr>ID = ''u1'', Data = ''d'', Status = Nack, Message = ''busy'',
         RetryCount = 9223372036854775808\<rparr>) = - 9223372036854775808
   \<and> sint (RetryCount
        \<lparr>ID = ''u1'', Data = ''d'', Status = Nack, Message = ''busy'',
         RetryCount = 9223372036854775808\<rparr>)
       < sint (RetryCount
           \<lparr>ID = [], Data = ''d'', Status = Uack, Message = [],
            RetryCount = 9223372036854775807\<rparr>)"
  by (simp add: PushJob_def updateJobStatus_def updateJobStatus_body_def db_Update_def
        tx_Get_def tx_Put_def chan_send_def notifierCap_def plain_codec_def Let_def)

text \<open>
  C4, as amended. Take a store that satisfies the invariant, an operation of the engine
  (a push with a token that is not yet a key, a status update, the sweep) and a key that
  holds a record before the operation and after it. Unless the operation is a status
  update of that key to \<open>Nack\<close> that the storage layer does not fail, the retry count of
  the record is the same after it. When it is such an update and the count is below the
  largest Go integer, the count after it is the count before it plus one. So below that
  bound the count does not go down, and it is non-negative after the operation when it
  was before.
\<close>

theorem RetryCount_changes_by_Nack_only:
  assumes "roundtrip c" and "store_ok c (db q)" and "fresh_token op q"
    and "engine_op c op q = Some q'"
    and "map_of (db q) k = Some v" and "map_of (db q') k = Some v'"
  shows "(\<not> nacks op k \<longrightarrow> RetryCount (DecodeJob c v') = RetryCount (DecodeJob c v))
     \<and> (nacks op k \<longrightarrow> sint (RetryCount (DecodeJob c v)) < MaxInt64 \<longrightarrow>
          sint (RetryCount (DecodeJob c v')) = sint (RetryCount (DecodeJob c v)) + 1)
     \<and> (sint (RetryCount (DecodeJob c v)) < MaxInt64 \<longrightarrow>
          sint (RetryCount (DecodeJob c v)) \<le> sint (RetryCount (DecodeJob c v'))
          \<and> (0 \<le> sint (RetryCount (DecodeJob c v)) \<longrightarrow>
               0 \<le> sint (RetryCount (DecodeJob c v'))))"
proof -
  note w = RetryCount_word_step [OF assms]
  show ?thesis
  proof (cases "nacks op k")
    case False
    with w show ?thesis by simp
  next
    case True
    with w have "RetryCount (DecodeJob c v') = RetryCount (DecodeJob c v) + 1" by simp
    then have "sint (RetryCount (DecodeJob c v')) = sint (RetryCount (DecodeJob c v)) + 1"
      if "sint (RetryCount (DecodeJob c v)) < MaxInt64"
      using that by (simp add: sint_succ_below_max)
    with True show ?thesis by simp
  qed
qed

theorem RetryCount_changes_by_Nack_only_witness:
  "roundtrip plain_codec
   \<and> store_ok plain_codec
        [(''a'', \<lparr>ID = ''a'', Data = ''d'', Status = Uack, Message = ''m'', RetryCount = 2\<rparr>)]
   \<and> fresh_token (OpUpdateJobStatus None ''a'' Nack ''busy'')
        \<lparr>QueueID = ''q'',
         db = [(''a'', \<lparr>ID = ''a'', Data = ''d'', Status = Uack, Message = ''m'', RetryCount = 2\<rparr>)],
         notifier = [], PollRate = 500\<rparr>
   \<and> engine_op plain_codec (OpUpdateJobStatus None ''a'' Nack ''busy'')
        \<lparr>QueueID = ''q'',
         db = [(''a'', \<lparr>ID = ''a'', Data = ''d'', Status = Uack, Message = ''m'', RetryCount = 2\<rparr>)],
         notifier = [], PollRate = 500\<rparr>
      = Some \<lparr>QueueID = ''q'',
              db = [(''a'', \<lparr>ID = ''a'', Data = ''d'', Status = Nack, Message = ''busy'',
                              RetryCount = 3\<rparr>)],
              notifier = [''a''], PollRate = 500\<rparr>
   \<and> nacks (OpUpdateJobStatus None ''a'' Nack ''busy'') ''a''
   \<and> sint (RetryCount (DecodeJob plain_codec
        \<lparr>ID = ''a'', Data = ''d'', Status = Uack, Message = ''m'', RetryCount = 2\<rparr>)) < MaxInt64
   \<and> sint (RetryCount (DecodeJob plain_codec
        \<lparr>ID = ''a'', Data = ''d'', Status = Nack, Message = ''busy'', RetryCount = 3\<rparr>))
      = sint (RetryCount (DecodeJob plain_codec
          \<lparr>ID = ''a'', Data = ''d'', Status = Uack, Message = ''m'', RetryCount = 2\<rparr>)) + 1
   \<and> engine_op plain_codec (OpUpdateJobStatus None ''a'' Ack ''Complete'')
        \<lparr>QueueID = ''q'',
         db = [(''a'', \<lparr>ID = ''a'', Data = ''d'', Status = Uack, Message = ''m'', RetryCount = 2\<rparr>)],
         notifier = [], PollRate = 500\<rparr>
      = Some \<lparr>QueueID = ''q'',
              db = [(''a'', \<lparr>ID = ''a'', Data = ''d'', Status = Ack, Message = ''Complete'',
                              RetryCount = 2\<rparr>)],
              notifier = [], PollRate = 500\<rparr>
   \<and> \<not> nacks (OpUpdateJobStatus None ''a'' Ack ''Complete'') ''a''
   \<and> RetryCount (DecodeJob plain_codec
        \<lparr>ID = ''a'', Data = ''d'', Status = Ack, Message = ''Complete'', RetryCount = 2\<rparr>)
      = RetryCount (DecodeJob plain_codec
          \<lparr>ID = ''a'', Data = ''d'', Status = Uack, Message = ''m'', RetryCount = 2\<rparr>)"
proof -
  let ?q = "\<lparr>QueueID = ''q'',
         db = [(''a'', \<lparr>ID = ''a'', Data = ''d'', Status = Uack, Message = ''m'', RetryCount = 2\<rparr>)],
         notifier = [], PollRate = 500\<rparr>"
  let ?q1 = "\<lparr>QueueID = ''q'',
              db = [(''a'', \<lparr>ID = ''a'', Data = ''d'', Status = Nack, Message = ''busy'',
                              RetryCount = 3\<rparr>)],
              notifier = [''a''], PollRate = 500\<rparr>"
  let ?q2 = "\<lparr>QueueID = ''q'',
              db = [(''a'', \<lparr>ID = ''a'', Data = ''d'', Status = Ack, Message = ''Complete'',
                              RetryCount = 2\<rparr>)],
              notifier = [], PollRate = 500\<rparr>"
  have r: "roundtrip plain_codec" by (rule roundtrip_plain_codec)
  have s: "store_ok plain_codec (db ?q)"
    by (simp add: store_ok_def keyed_by_ID_def plain_codec_def)
  have f1: "fresh_token (OpUpdateJobStatus None ''a'' Nack ''busy'') ?q" by simp
  have f2: "fresh_token (OpUpdateJobStatus None ''a'' Ack ''Complete'') ?q" by simp
  have e1: "engine_op plain_codec (OpUpdateJobStatus None ''a'' Nack ''busy'') ?q = Some ?q1"
    by (simp add: updateJobStatus_def updateJobStatus_body_def db_Update_def tx_Get_def
          tx_Put_def chan_send_def notifierCap_def plain_codec_def Let_def)
  have e2: "engine_op plain_codec (OpUpdateJobStatus None ''a'' Ack ''Complete'') ?q = Some ?q2"
    by (simp add: updateJobStatus_def updateJobStatus_body_def db_Update_def tx_Get_def
          tx_Put_def plain_codec_def Let_def)
  have a: "map_of (db ?q) ''a''
             = Some \<lparr>ID = ''a'', Data = ''d'', Status = Uack, Message = ''m'', RetryCount = 2\<rparr>"
    by simp
  have b1: "map_of (db ?q1) ''a''
             = Some \<lparr>ID = ''a'', Data = ''d'', Status = Nack, Message = ''busy'', RetryCount = 3\<rparr>"
    by simp
  have b2: "map_of (db ?q2) ''a''
             = Some \<lparr>ID = ''a'', Data = ''d'', Status = Ack, Message = ''Complete'',
                      RetryCount = 2\<rparr>"
    by simp
  have m: "sint (RetryCount (DecodeJob plain_codec
        \<lparr>ID = ''a'', Data = ''d'', Status = Uack, Message = ''m'', RetryCount = 2\<rparr>)) < MaxInt64"
    by (simp add: plain_codec_def MaxInt64_def)
  show ?thesis
    using RetryCount_changes_by_Nack_only [OF r s f1 e1 a b1]
      RetryCount_changes_by_Nack_only [OF r s f2 e2 a b2] r s f1 e1 e2 m
    by simp
qed

subsection \<open>The dispatch loop\<close>

lemma db_Update_error:
  assumes "db_Update fault body d = (Some e, d')"
  shows "d' = d"
  using assms by (auto simp add: db_Update_def split: sum.splits option.splits)

lemma updateJobStatus_error:
  assumes "updateJobStatus c fault jid status message q = Some (Some e, q')"
  shows "q' = q"
proof (cases "db_Update fault (updateJobStatus_body c jid status message) (db q)")
  case (Pair err d)
  with assms have "err = Some e" and q': "q' = q\<lparr>db := d\<rparr>"
    by (auto simp add: updateJobStatus_def Let_def split: if_splits option.splits)
  with Pair have "d = db q" by (simp add: db_Update_error)
  with q' show ?thesis by simp
qed

lemma updateJobStatus_Uack_error:
  assumes "updateJobStatus c fault jid Uack message q = Some (Some e, q')"
  shows "q' = q \<and> notifier q' = notifier q \<and> db q' = db q"
  using updateJobStatus_error [OF assms] by simp

lemma receive_case_fetched:
  assumes "updateJobStatus c f1 jobID Uack (''Picked up by '' @ WorkerID w) q = Some (None, q1)"
    and "GetJobByID c f2 jobID q1 = Inr job"
  shows "receive_case c w f1 f2 f3 jobID q =
           map_option (\<lambda>(_, q2). (Worked job (DoWork w job), q2))
             (updateJobStatus c f3 jobID (spec_status (DoWork w job))
                (spec_message (DoWork w job)) q1)"
proof (cases "DoWork w job")
  case None
  with assms show ?thesis by (simp add: receive_case_def)
next
  case (Some e)
  with assms show ?thesis by (cases e) (simp_all add: receive_case_def)
qed

lemma receive_case_Worked:
  assumes "receive_case c w f1 f2 f3 jobID q = Some (Worked job r, q')"
  shows "\<exists>q1 err.
           updateJobStatus c f1 jobID Uack (''Picked up by '' @ WorkerID w) q = Some (None, q1)
           \<and> GetJobByID c f2 jobID q1 = Inr job
           \<and> r = DoWork w job
           \<and> updateJobStatus c f3 jobID (spec_status r) (spec_message r) q1 = Some (err, q')"
proof -
  let ?pick = "updateJobStatus c f1 jobID Uack (''Picked up by '' @ WorkerID w) q"
  from assms obtain q1 where p: "?pick = Some (None, q1)"
    by (auto simp add: receive_case_def split: option.splits)
  with assms obtain job0 where g: "GetJobByID c f2 jobID q1 = Inr job0"
    by (auto simp add: receive_case_def split: sum.splits)
  from assms have "map_option (\<lambda>(_, q2). (Worked job0 (DoWork w job0), q2))
             (updateJobStatus c f3 jobID (spec_status (DoWork w job0))
                (spec_message (DoWork w job0)) q1) = Some (Worked job r, q')"
    by (simp only: receive_case_fetched [OF p g])
  then obtain err where "job0 = job" "r = DoWork w job0"
    "updateJobStatus c f3 jobID (spec_status (DoWork w job0))
                (spec_message (DoWork w job0)) q1 = Some (err, q')"
    by auto
  with p g show ?thesis by auto
qed

lemma receive_case_PickupFailed:
  assumes "updateJobStatus c f1 jobID Uack (''Picked up by '' @ WorkerID w) q = Some (Some e, q1)"
  shows "receive_case c w f1 f2 f3 jobID q = Some (PickupFailed e, q1)"
  using assms by (simp add: receive_case_def)

lemma updateJobStatus_no_error:
  assumes "store_ok c (db q)"
    and "updateJobStatus c fault jid status message q = Some (None, q')"
  shows "\<exists>v. map_of (db q) jid = Some v \<and> ID (DecodeJob c v) = jid
           \<and> db q' = tx_Put (db q) jid (Bytes c (spec_marked (DecodeJob c v) status message))"
proof (cases "map_of (db q) jid")
  case None
  with assms(2) show ?thesis by (simp add: updateJobStatus_absent)
next
  case (Some v)
  from assms(1) Some have i: "ID (DecodeJob c v) = jid" by (rule store_ok_lookup)
  from assms(2) have "db q' = tx_Put (db q) jid (Bytes c (spec_marked (DecodeJob c v) status message))"
    by (auto simp add: updateJobStatus_found [OF Some] i split: if_splits)
  with Some i show ?thesis by simp
qed

lemma updateJobStatus_returns_fault:
  assumes "map_of (db q) jid = Some v"
    and "updateJobStatus c fault jid status message q = Some (err, q')"
  shows "err = fault"
  using assms(2) by (auto simp add: updateJobStatus_found [OF assms(1)] split: if_splits)

lemma GetJobByID_Inr:
  assumes "GetJobByID c fault jid q = Inr job"
  shows "\<exists>v. map_of (db q) jid = Some v \<and> job = DecodeJob c v"
  using assms
  by (auto simp add: GetJobByID_def db_View_def tx_Get_def split: option.splits)

lemma pickup_marks:
  assumes "store_ok c (db q)" and "map_of (db q) jobID = Some v"
  shows "updateJobStatus c None jobID Uack message q =
           Some (None, q\<lparr>db := tx_Put (db q) jobID
                                (Bytes c (spec_marked (DecodeJob c v) Uack message))\<rparr>)"
proof -
  from assms have "ID (DecodeJob c v) = jobID" by (rule store_ok_lookup)
  then show ?thesis by (simp add: updateJobStatus_found [OF assms(2)])
qed

text \<open>
  C6. Take a store that satisfies the invariant and holds a record under the received ID,
  and let the storage layer fail neither the pick-up mark nor the fetch, so that the pass
  reaches \<open>DoWork\<close>. Then \<open>DoWork\<close> is called on the record as picked up, and with its
  result \<open>r\<close> the pass ends after one call of \<open>updateJobStatus\<close> for the same ID, with
  \<open>Ack\<close> and "Complete" for no error, \<open>Nack\<close> and the error text for a
  \<open>RecoverableWorkerError\<close>, \<open>Failed\<close> and the error text for any other error. Unless
  the storage layer fails that last write, the record read back is the fetched job with
  that status and message; for \<open>Nack\<close> the ID goes back to the channel, which needs room.
\<close>

theorem DoWork_result_marks_record:
  assumes "roundtrip c" and "store_ok c (db q)"
    and "map_of (db q) jobID = Some v"
    and "job = spec_marked (DecodeJob c v) Uack (''Picked up by '' @ WorkerID w)"
    and "r = DoWork w job"
    and "spec_status r = Nack \<and> f3 = None \<longrightarrow> length (notifier q) < notifierCap"
  shows "receive_case c w None None f3 jobID q =
           Some (Worked job r,
             q\<lparr>db := (if f3 = None
                       then tx_Put (tx_Put (db q) jobID (Bytes c job)) jobID
                              (Bytes c (spec_marked job (spec_status r) (spec_message r)))
                       else tx_Put (db q) jobID (Bytes c job)),
                notifier := (if spec_status r = Nack \<and> f3 = None then notifier q @ [jobID]
                             else notifier q)\<rparr>)
     \<and> (f3 = None \<longrightarrow>
          GetJobByID c None jobID
            (q\<lparr>db := tx_Put (tx_Put (db q) jobID (Bytes c job)) jobID
                        (Bytes c (spec_marked job (spec_status r) (spec_message r))),
               notifier := (if spec_status r = Nack then notifier q @ [jobID]
                            else notifier q)\<rparr>)
          = Inr (spec_marked job (spec_status r) (spec_message r)))
     \<and> (r = None \<longrightarrow> spec_status r = Ack \<and> spec_message r = ''Complete'')
     \<and> (\<forall>t. r = Some (RecoverableWorkerError t) \<longrightarrow> spec_status r = Nack \<and> spec_message r = t)
     \<and> (\<forall>e. r = Some e \<longrightarrow> (\<forall>t. e \<noteq> RecoverableWorkerError t) \<longrightarrow>
            spec_status r = Failed \<and> spec_message r = Error e)"
proof -
  let ?q1 = "q\<lparr>db := tx_Put (db q) jobID (Bytes c job)\<rparr>"
  have p: "updateJobStatus c None jobID Uack (''Picked up by '' @ WorkerID w) q = Some (None, ?q1)"
    unfolding assms(4) using assms(2,3) by (rule pickup_marks)
  have s1: "map_of (db ?q1) jobID = Some (Bytes c job)"
    by (simp add: map_of_Put_same)
  have g: "GetJobByID c None jobID ?q1 = Inr job"
    using GetJobByID_found [OF s1, of c] by (simp add: roundtripD [OF assms(1)])
  from assms(2,3) have "ID (DecodeJob c v) = jobID" by (rule store_ok_lookup)
  then have i: "ID (DecodeJob c (Bytes c job)) = jobID"
    by (simp add: roundtripD [OF assms(1)] assms(4) spec_marked_fields)
  have u: "updateJobStatus c f3 jobID (spec_status r) (spec_message r) ?q1 =
        Some (f3,
          q\<lparr>db := (if f3 = None
                    then tx_Put (tx_Put (db q) jobID (Bytes c job)) jobID
                           (Bytes c (spec_marked job (spec_status r) (spec_message r)))
                    else tx_Put (db q) jobID (Bytes c job)),
             notifier := (if spec_status r = Nack \<and> f3 = None then notifier q @ [jobID]
                          else notifier q)\<rparr>)"
    using assms(6) i
    by (cases f3) (simp_all add: updateJobStatus_found [OF s1] roundtripD [OF assms(1)])
  have done_pass: "receive_case c w None None f3 jobID q =
           Some (Worked job r,
             q\<lparr>db := (if f3 = None
                       then tx_Put (tx_Put (db q) jobID (Bytes c job)) jobID
                              (Bytes c (spec_marked job (spec_status r) (spec_message r)))
                       else tx_Put (db q) jobID (Bytes c job)),
                notifier := (if spec_status r = Nack \<and> f3 = None then notifier q @ [jobID]
                             else notifier q)\<rparr>)"
    using u by (simp add: receive_case_fetched [OF p g] assms(5))
  have read_back: "GetJobByID c None jobID
            (q\<lparr>db := tx_Put (tx_Put (db q) jobID (Bytes c job)) jobID
                        (Bytes c (spec_marked job (spec_status r) (spec_message r))),
               notifier := (if spec_status r = Nack then notifier q @ [jobID]
                            else notifier q)\<rparr>)
          = Inr (spec_marked job (spec_status r) (spec_message r))"
    by (rule GetJobByID_Put [OF assms(1)])
  have other: "spec_status (Some e) = Failed \<and> spec_message (Some e) = Error e"
    if "\<forall>t. e \<noteq> RecoverableWorkerError t" for e
    using that by (cases e) simp_all
  from done_pass read_back other show ?thesis by auto
qed

theorem DoWork_result_marks_record_witness:
  "roundtrip plain_codec
   \<and> store_ok plain_codec
        [(''a'', \<lparr>ID = ''a'', Data = ''d'', Status = Uack, Message = [], RetryCount = 0\<rparr>)]
   \<and> map_of [(''a'', \<lparr>ID = ''a'', Data = ''d'', Status = Uack, Message = [], RetryCount = 0\<rparr>)]
        ''a''
      = Some \<lparr>ID = ''a'', Data = ''d'', Status = Uack, Message = [], RetryCount = 0\<rparr>
   \<and> receive_case plain_codec \<lparr>WorkerID = ''w1'', DoWork = (\<lambda>j. None)\<rparr>
        None None None ''a''
        \<lparr>QueueID = ''q'',
         db = [(''a'', \<lparr>ID = ''a'', Data = ''d'', Status = Uack, Message = [], RetryCount = 0\<rparr>)],
         notifier = [''b''], PollRate = 500\<rparr>
      = Some (Worked
                \<lparr>ID = ''a'', Data = ''d'', Status = Uack, Message = ''Picked up by w1'',
                 RetryCount = 0\<rparr>
                None,
              \<lparr>QueueID = ''q'',
               db = [(''a'', \<lparr>ID = ''a'', Data = ''d'', Status = Ack, Message = ''Complete'',
                               RetryCount = 0\<rparr>)],
               notifier = [''b''], PollRate = 500\<rparr>)
   \<and> receive_case plain_codec \<lparr>WorkerID = ''w1'', DoWork = (\<lambda>j. Some (RecoverableWorkerError ''busy''))\<rparr>
        None None None ''a''
        \<lparr>QueueID = ''q'',
         db = [(''a'', \<lparr>ID = ''a'', Data = ''d'', Status = Uack, Message = [], RetryCount = 0\<rparr>)],
         notifier = [''b''], PollRate = 500\<rparr>
      = Some (Worked
                \<lparr>ID = ''a'', Data = ''d'', Status = Uack, Message = ''Picked up by w1'',
                 RetryCount = 0\<rparr>
                (Some (RecoverableWorkerError ''busy'')),
              \<lparr>QueueID = ''q'',
               db = [(''a'', \<lparr>ID = ''a'', Data = ''d'', Status = Nack, Message = ''busy'',
                               RetryCount = 1\<rparr>)],
               notifier = [''b'', ''a''], PollRate = 500\<rparr>)
   \<and> receive_case plain_codec \<lparr>WorkerID = ''w1'', DoWork = (\<lambda>j. Some (OtherError ''bad''))\<rparr>
        None None None ''a''
        \<lparr>QueueID = ''q'',
         db = [(''a'', \<lparr>ID = ''a'', Data = ''d'', Status = Uack, Message = [], RetryCount = 0\<rparr>)],
         notifier = [''b''], PollRate = 500\<rparr>
      = Some (Worked
                \<lparr>ID = ''a'', Data = ''d'', Status = Uack, Message = ''Picked up by w1'',
                 RetryCount = 0\<rparr>
                (Some (OtherError ''bad'')),
              \<lparr>QueueID = ''q'',
               db = [(''a'', \<lparr>ID = ''a'', Data = ''d'', Status = Failed, Message = ''bad'',
                               RetryCount = 0\<rparr>)],
               notifier = [''b''], PollRate = 500\<rparr>)"
proof -
  let ?q = "\<lparr>QueueID = ''q'',
         db = [(''a'', \<lparr>ID = ''a'', Data = ''d'', Status = Uack, Message = [], RetryCount = 0\<rparr>)],
         notifier = [''b''], PollRate = 500\<rparr>"
  let ?v = "\<lparr>ID = ''a'', Data = ''d'', Status = Uack, Message = [], RetryCount = 0\<rparr>"
  let ?job = "\<lparr>ID = ''a'', Data = ''d'', Status = Uack, Message = ''Picked up by w1'',
                 RetryCount = 0\<rparr>"
  let ?ack = "\<lparr>WorkerID = ''w1'', DoWork = (\<lambda>j. None)\<rparr>"
  let ?nack = "\<lparr>WorkerID = ''w1'', DoWork = (\<lambda>j. Some (RecoverableWorkerError ''busy''))\<rparr>"
  let ?failed = "\<lparr>WorkerID = ''w1'', DoWork = (\<lambda>j. Some (OtherError ''bad''))\<rparr>"
  have r: "roundtrip plain_codec" by (rule roundtrip_plain_codec)
  have s: "store_ok plain_codec (db ?q)"
    by (simp add: store_ok_def keyed_by_ID_def plain_codec_def)
  have m: "map_of (db ?q) ''a'' = Some ?v" by simp
  have j1: "?job = spec_marked (DecodeJob plain_codec ?v) Uack (''Picked up by '' @ WorkerID ?ack)"
    by (simp add: spec_marked_def plain_codec_def)
  have j2: "?job = spec_marked (DecodeJob plain_codec ?v) Uack (''Picked up by '' @ WorkerID ?nack)"
    by (simp add: spec_marked_def plain_codec_def)
  have j3: "?job = spec_marked (DecodeJob plain_codec ?v) Uack (''Picked up by '' @ WorkerID ?failed)"
    by (simp add: spec_marked_def plain_codec_def)
  have r1: "None = DoWork ?ack ?job" by simp
  have r2: "Some (RecoverableWorkerError ''busy'') = DoWork ?nack ?job" by simp
  have r3: "Some (OtherError ''bad'') = DoWork ?failed ?job" by simp
  have l: "spec_status x = Nack \<and> (None :: error option) = None \<longrightarrow>
             length (notifier ?q) < notifierCap" for x
    by (simp add: notifierCap_def)
  show ?thesis
    using DoWork_result_marks_record [OF r s m j1 r1 l]
      DoWork_result_marks_record [OF r s m j2 r2 l]
      DoWork_result_marks_record [OF r s m j3 r3 l] r s m
    by (simp add: tx_Put_def plain_codec_def spec_marked_def)
qed

text \<open>
  C7. Take a pass of the loop that receives an ID from the channel, and let the pick-up
  mark of that ID fail with an error \<open>e\<close> (the key is absent, or the storage layer fails
  the write). The pass ends at the first \<open>continue\<close>: it does not reach the call of
  \<open>DoWork\<close>, whatever function \<open>DoWork\<close> is, and it leaves the store as it was and the
  channel without the received ID, with nothing appended.
\<close>

theorem pickup_failure_abandons_pass:
  assumes "notifier q = jobID # rest" and "\<not> (cancelled \<and> takeDone)"
    and "updateJobStatus c f1 jobID Uack (''Picked up by '' @ WorkerID w) (q\<lparr>notifier := rest\<rparr>)
           = Some (Some e, q1)"
  shows "registerWorkerWithContext_pass c w cancelled takeDone f1 f2 f3 q
           = Some (PickupFailed e, q\<lparr>notifier := rest\<rparr>)
     \<and> (\<forall>g. registerWorkerWithContext_pass c (w\<lparr>DoWork := g\<rparr>) cancelled takeDone f1 f2 f3 q
              = Some (PickupFailed e, q\<lparr>notifier := rest\<rparr>))"
proof -
  from updateJobStatus_error [OF assms(3)] have q1: "q1 = q\<lparr>notifier := rest\<rparr>" .
  have "registerWorkerWithContext_pass c (w\<lparr>DoWork := g\<rparr>) cancelled takeDone f1 f2 f3 q
          = Some (PickupFailed e, q\<lparr>notifier := rest\<rparr>)" for g
  proof -
    from assms(3) q1
    have "updateJobStatus c f1 jobID Uack (''Picked up by '' @ WorkerID (w\<lparr>DoWork := g\<rparr>))
            (q\<lparr>notifier := rest\<rparr>) = Some (Some e, q\<lparr>notifier := rest\<rparr>)"
      by simp
    from receive_case_PickupFailed [OF this] assms(1,2) show ?thesis
      by (simp add: registerWorkerWithContext_pass_def)
  qed
  from this this [of "DoWork w"] show ?thesis by simp
qed

theorem pickup_failure_abandons_pass_witness:
  "notifier \<lparr>QueueID = ''q'',
             db = [(''a'', \<lparr>ID = ''a'', Data = ''d'', Status = Uack, Message = [],
                             RetryCount = 0\<rparr>)],
             notifier = [''a'', ''b''], PollRate = 500\<rparr> = ''a'' # [''b'']
   \<and> \<not> (False \<and> False)
   \<and> updateJobStatus plain_codec (Some (StoreError ''io'')) ''a'' Uack
        (''Picked up by '' @ WorkerID \<lparr>WorkerID = ''w1'', DoWork = (\<lambda>j. None)\<rparr>)
        \<lparr>QueueID = ''q'',
         db = [(''a'', \<lparr>ID = ''a'', Data = ''d'', Status = Uack, Message = [], RetryCount = 0\<rparr>)],
         notifier = [''b''], PollRate = 500\<rparr>
      = Some (Some (StoreError ''io''),
          \<lparr>QueueID = ''q'',
           db = [(''a'', \<lparr>ID = ''a'', Data = ''d'', Status = Uack, Message = [], RetryCount = 0\<rparr>)],
           notifier = [''b''], PollRate = 500\<rparr>)
   \<and> registerWorkerWithContext_pass plain_codec \<lparr>WorkerID = ''w1'', DoWork = (\<lambda>j. None)\<rparr>
        False False (Some (StoreError ''io'')) None None
        \<lparr>QueueID = ''q'',
         db = [(''a'', \<lparr>ID = ''a'', Data = ''d'', Status = Uack, Message = [], RetryCount = 0\<rparr>)],
         notifier = [''a'', ''b''], PollRate = 500\<rparr>
      = Some (PickupFailed (StoreError ''io''),
          \<lparr>QueueID = ''q'',
           db = [(''a'', \<lparr>ID = ''a'', Data = ''d'', Status = Uack, Message = [], RetryCount = 0\<rparr>)],
           notifier = [''b''], PollRate = 500\<rparr>)"
proof -
  let ?q = "\<lparr>QueueID = ''q'',
             db = [(''a'', \<lparr>ID = ''a'', Data = ''d'', Status = Uack, Message = [],
                             RetryCount = 0\<rparr>)],
             notifier = [''a'', ''b''], PollRate = 500\<rparr>"
  let ?w = "\<lparr>WorkerID = ''w1'', DoWork = (\<lambda>j. None)\<rparr>"
  have n: "notifier ?q = ''a'' # [''b'']" by simp
  have c: "\<not> (False \<and> False)" by simp
  have u: "updateJobStatus plain_codec (Some (StoreError ''io'')) ''a'' Uack
        (''Picked up by '' @ WorkerID ?w) (?q\<lparr>notifier := [''b'']\<rparr>)
      = Some (Some (StoreError ''io''),
          \<lparr>QueueID = ''q'',
           db = [(''a'', \<lparr>ID = ''a'', Data = ''d'', Status = Uack, Message = [], RetryCount = 0\<rparr>)],
           notifier = [''b''], PollRate = 500\<rparr>)"
    by (simp add: updateJobStatus_def updateJobStatus_body_def db_Update_def tx_Get_def
          tx_Put_def plain_codec_def Let_def)
  show ?thesis
    using pickup_failure_abandons_pass [OF n c u, of None None] n u
    by simp
qed

end
